theory Spec2Isabelle
  imports Main
begin

section \<open>What zipkin.ts imports\<close>

text \<open>
  Modelled from the spec: the enum \<open>ExportResult\<close> of @opentelemetry/base is imported by
  zipkin.ts but its declaration is not part of the files at hand. The spec (section 6)
  describes the value handed to the result callback as a SUCCESS/FAILURE indicator.
  zipkin.ts itself only ever writes \<open>ExportResult.SUCCESS\<close>.
\<close>

datatype ExportResult = SUCCESS | FAILURE

text \<open>
  \<open>types.Logger\<close>: either the \<open>NoopLogger\<close> of @opentelemetry/core that the constructor
  creates, or a logger object supplied by the caller (an opaque value of type \<open>'l\<close>).
\<close>

datatype 'l Logger = NoopLogger | UserLogger 'l

text \<open>
  A promise as it settles: \<open>axios.post\<close> returns one, which the network fulfils or rejects
  with a reason of type \<open>'e\<close> (a network error, a response with a non-success status).
\<close>

datatype 'e Promise = Fulfilled | Rejected 'e

text \<open>
  What a call does beyond returning: the calls it makes on the logger, on axios and on
  a function handed in by the caller (an opaque value of type \<open>'c\<close>), in the order in
  which they happen.
\<close>

datatype ('z, 'e, 'l, 'c) effect =
    LoggerDebug "'l Logger" string
  | LoggerError "'l Logger" string 'e
  | AxiosPost string "'z list"
  | Invoke 'c ExportResult

text \<open>
  Modelled from the spec: the module ./transform (\<open>toZipkinSpan\<close> and the two default tag
  keys \<open>statusCodeTagName\<close>, \<open>statusDescriptionTagName\<close>) is imported by zipkin.ts but is
  not part of the files at hand. The spec (sections 2 and 4.1) describes the transformer
  as a pure function \<open>transform(span, serviceName, statusCodeTagKey,
  statusDescriptionTagKey)\<close> with no I/O and no state, and the tag keys as fixed defaults.
  The module is therefore a parameter of the model: a function from an internal span
  (type \<open>'s\<close>, \<open>ReadableSpan\<close>) and three strings to a wire span (type \<open>'z\<close>,
  \<open>zipkinTypes.Span\<close>), and two strings.
\<close>

record ('s, 'z) transform =
  toZipkinSpan :: "'s \<Rightarrow> string \<Rightarrow> string \<Rightarrow> string \<Rightarrow> 'z"
  statusCodeTagName :: string
  statusDescriptionTagName :: string

text \<open>
  \<open>zipkinTypes.ExporterConfig\<close>, the constructor's argument: \<open>serviceName\<close> is required,
  every other option may be absent (\<open>None\<close> is JavaScript's \<open>undefined\<close>).
\<close>

record 'l ExporterConfig =
  logger :: "'l Logger option"
  serviceName :: string
  url :: "string option"
  forceFlush :: "bool option"
  statusCodeTagName :: "string option"
  statusDescriptionTagName :: "string option"

section \<open>JavaScript's \<open>||\<close> and \<open>.catch\<close>\<close>

text \<open>
  \<open>a || b\<close> is \<open>a\<close> when \<open>a\<close> is truthy and \<open>b\<close> otherwise. \<open>undefined\<close>, the empty
  string and \<open>false\<close> are falsy; every object is truthy.
\<close>

definition or_string :: "string option \<Rightarrow> string \<Rightarrow> string" where
  "or_string a b = (case a of None \<Rightarrow> b | Some s \<Rightarrow> if s = [] then b else s)"

definition or_boolean :: "bool option \<Rightarrow> bool \<Rightarrow> bool" where
  "or_boolean a b = (case a of None \<Rightarrow> b | Some v \<Rightarrow> if v then v else b)"

definition or_object :: "'a option \<Rightarrow> 'a \<Rightarrow> 'a" where
  "or_object a b = (case a of None \<Rightarrow> b | Some v \<Rightarrow> v)"

text \<open>
  \<open>p.catch(h)\<close>: when \<open>p\<close> is rejected the handler runs on the reason, and the promise
  that \<open>catch\<close> returns is fulfilled; when \<open>p\<close> is fulfilled the handler does not run.
\<close>

fun promise_catch ::
  "'e Promise \<Rightarrow> ('e \<Rightarrow> ('z, 'e, 'l, 'c) effect list) \<Rightarrow> ('z, 'e, 'l, 'c) effect list \<times> 'e Promise"
where
  "promise_catch Fulfilled h = ([], Fulfilled)"
| "promise_catch (Rejected reason) h = (h reason, Fulfilled)"

section \<open>class ZipkinExporter\<close>

text \<open>The private readonly fields; \<open>this_forceFlush\<close> is \<open>this._forceFlush\<close>, and so on.\<close>

record 'l ZipkinExporter =
  this_forceFlush :: bool
  this_logger :: "'l Logger"
  this_serviceName :: string
  this_statusCodeTagName :: string
  this_statusDescriptionTagName :: string
  this_urlStr :: string

definition DEFAULT_URL :: string where
  "DEFAULT_URL = ''http://localhost:9411/api/v2/spans''"

text \<open>The constructor, assignment by assignment.\<close>

definition new_ZipkinExporter ::
  "('s, 'z) transform \<Rightarrow> 'l ExporterConfig \<Rightarrow> 'l ZipkinExporter"
where
  "new_ZipkinExporter T config =
     \<lparr> this_forceFlush = or_boolean (forceFlush config) True,
       this_logger = or_object (logger config) NoopLogger,
       this_serviceName = serviceName config,
       this_statusCodeTagName =
         or_string (ExporterConfig.statusCodeTagName config) (transform.statusCodeTagName T),
       this_statusDescriptionTagName =
         or_string (ExporterConfig.statusDescriptionTagName config)
           (transform.statusDescriptionTagName T),
       this_urlStr = or_string (url config) DEFAULT_URL \<rparr>"

text \<open>\<open>_toZipkinSpan\<close>: the imported transformer at the exporter's three strings.\<close>

definition this_toZipkinSpan ::
  "('s, 'z) transform \<Rightarrow> 'l ZipkinExporter \<Rightarrow> 's \<Rightarrow> 'z"
where
  "this_toZipkinSpan T this span =
     toZipkinSpan T span (this_serviceName this) (this_statusCodeTagName this)
       (this_statusDescriptionTagName this)"

text \<open>
  \<open>_send\<close>, an async function: its result is the list of effects and the promise it
  returns. \<open>axios_post\<close> is the network: the promise that \<open>axios.post(url, data)\<close>
  returns, as it settles. The promise that \<open>.catch\<close> returns is dropped (the statement
  is an expression statement), and the body ends without a value in the second branch.
\<close>

definition this_send ::
  "(string \<Rightarrow> 'z list \<Rightarrow> 'e Promise) \<Rightarrow> 'l ZipkinExporter \<Rightarrow> 'z list \<Rightarrow>
   (ExportResult \<Rightarrow> ('z, 'e, 'l, 'c) effect list) \<Rightarrow>
   ('z, 'e, 'l, 'c) effect list \<times> 'e Promise"
where
  "this_send axios_post this zipkinSpans done =
     (if length zipkinSpans = 0 then
        (LoggerDebug (this_logger this) ''Zipkin send with empty spans'' # done SUCCESS,
         Fulfilled)
      else
        (AxiosPost (this_urlStr this) zipkinSpans #
           fst (promise_catch (axios_post (this_urlStr this) zipkinSpans)
                  (\<lambda>e. [LoggerError (this_logger this)
                           (''axios.post threw error '' @ this_urlStr this) e])),
         Fulfilled))"

text \<open>
  \<open>_sendSpans\<close>: \<open>done\<close> is optional; the function literal handed to \<open>_send\<close> calls it
  when it is there.
\<close>

definition this_sendSpans ::
  "('s, 'z) transform \<Rightarrow> (string \<Rightarrow> 'z list \<Rightarrow> 'e Promise) \<Rightarrow> 'l ZipkinExporter \<Rightarrow>
   's list \<Rightarrow> 'c option \<Rightarrow> ('z, 'e, 'l, 'c) effect list \<times> 'e Promise"
where
  "this_sendSpans T axios_post this spans done =
     (let zipkinSpans = map (\<lambda>span. this_toZipkinSpan T this span) spans
      in this_send axios_post this zipkinSpans
           (\<lambda>result. case done of Some d \<Rightarrow> [Invoke d result] | None \<Rightarrow> []))"

definition export ::
  "('s, 'z) transform \<Rightarrow> (string \<Rightarrow> 'z list \<Rightarrow> 'e Promise) \<Rightarrow> 'l ZipkinExporter \<Rightarrow>
   's list \<Rightarrow> 'c \<Rightarrow> ('z, 'e, 'l, 'c) effect list \<times> 'e Promise"
where
  "export T axios_post this spans resultCallback =
     this_sendSpans T axios_post this spans (Some resultCallback)"

text \<open>\<open>shutdown\<close> returns nothing; the promise of \<open>_sendSpans\<close> is dropped.\<close>

definition shutdown ::
  "('s, 'z) transform \<Rightarrow> (string \<Rightarrow> 'z list \<Rightarrow> 'e Promise) \<Rightarrow> 'l ZipkinExporter \<Rightarrow>
   ('z, 'e, 'l, 'c) effect list"
where
  "shutdown T axios_post this =
     (if this_forceFlush this then fst (this_sendSpans T axios_post this [] None) else [])"

section \<open>Reading a list of effects\<close>

text \<open>The requests handed to axios, and the calls made on the caller's callback.\<close>

fun posts :: "('z, 'e, 'l, 'c) effect list \<Rightarrow> (string \<times> 'z list) list" where
  "posts [] = []"
| "posts (AxiosPost u zs # es) = (u, zs) # posts es"
| "posts (_ # es) = posts es"

fun invocations :: "('z, 'e, 'l, 'c) effect list \<Rightarrow> ('c \<times> ExportResult) list" where
  "invocations [] = []"
| "invocations (Invoke c r # es) = (c, r) # invocations es"
| "invocations (_ # es) = invocations es"

fun debugs :: "('z, 'e, 'l, 'c) effect list \<Rightarrow> ('l Logger \<times> string) list" where
  "debugs [] = []"
| "debugs (LoggerDebug l m # es) = (l, m) # debugs es"
| "debugs (_ # es) = debugs es"

text \<open>
  Several \<open>export\<close> calls on one exporter, one after the other: each call is a span
  array and a callback, and the effects follow each other in the order of the calls.
\<close>

fun exports ::
  "('s, 'z) transform \<Rightarrow> (string \<Rightarrow> 'z list \<Rightarrow> 'e Promise) \<Rightarrow> 'l ZipkinExporter \<Rightarrow>
   ('s list \<times> 'c) list \<Rightarrow> ('z, 'e, 'l, 'c) effect list"
where
  "exports T axios_post this [] = []"
| "exports T axios_post this ((spans, resultCallback) # calls) =
     fst (export T axios_post this spans resultCallback) @ exports T axios_post this calls"

section \<open>Arrays and span objects by reference\<close>

text \<open>
  In JavaScript the span array, the span objects in it and the array that \<open>spans.map\<close>
  builds are objects on the heap, handed around by reference. The heap is a list of
  objects and a reference is an index into it; a new object goes to the end, so its
  reference is one no object had before. An array of spans holds references to span
  objects.
\<close>

type_synonym addr = nat

datatype ('s, 'z) obj = SpanObject 's | SpanArray "addr list" | ZipkinSpanArray "'z list"

type_synonym ('s, 'z) heap = "('s, 'z) obj list"

definition heap_get :: "('s, 'z) heap \<Rightarrow> addr \<Rightarrow> ('s, 'z) obj option" where
  "heap_get h a = (if a < length h then Some (h ! a) else None)"

definition heap_new :: "('s, 'z) heap \<Rightarrow> ('s, 'z) obj \<Rightarrow> addr \<times> ('s, 'z) heap" where
  "heap_new h v = (length h, h @ [v])"

definition get_span :: "('s, 'z) heap \<Rightarrow> addr \<Rightarrow> 's option" where
  "get_span h r = (case heap_get h r of Some (SpanObject s) \<Rightarrow> Some s | _ \<Rightarrow> None)"

text \<open>
  The spans of the array at \<open>a\<close>, in order; \<open>None\<close> when \<open>a\<close> is not a span array or one of
  its entries is not a span object, which the type \<open>ReadableSpan[]\<close> excludes.
\<close>

definition get_spans :: "('s, 'z) heap \<Rightarrow> addr \<Rightarrow> 's list option" where
  "get_spans h a =
     (case heap_get h a of
        Some (SpanArray rs) \<Rightarrow> those (map (get_span h) rs)
      | _ \<Rightarrow> None)"

definition get_zipkinSpans :: "('s, 'z) heap \<Rightarrow> addr \<Rightarrow> 'z list option" where
  "get_zipkinSpans h b =
     (case heap_get h b of Some (ZipkinSpanArray zs) \<Rightarrow> Some zs | _ \<Rightarrow> None)"

text \<open>
  The three methods again, with the arrays as references and the heap passed through.
  \<open>_send\<close> reads the length of the array and hands the array to axios; it writes nothing.
  \<open>_sendSpans\<close> reads the span array, and \<open>spans.map\<close> puts a new array on the heap.
\<close>

definition this_send_ref ::
  "(string \<Rightarrow> 'z list \<Rightarrow> 'e Promise) \<Rightarrow> 'l ZipkinExporter \<Rightarrow> ('s, 'z) heap \<Rightarrow> addr \<Rightarrow>
   (ExportResult \<Rightarrow> ('z, 'e, 'l, 'c) effect list) \<Rightarrow>
   ((('z, 'e, 'l, 'c) effect list \<times> 'e Promise) \<times> ('s, 'z) heap) option"
where
  "this_send_ref axios_post this h zipkinSpans done =
     (case get_zipkinSpans h zipkinSpans of
        None \<Rightarrow> None
      | Some zs \<Rightarrow> Some (this_send axios_post this zs done, h))"

definition this_sendSpans_ref ::
  "('s, 'z) transform \<Rightarrow> (string \<Rightarrow> 'z list \<Rightarrow> 'e Promise) \<Rightarrow> 'l ZipkinExporter \<Rightarrow>
   ('s, 'z) heap \<Rightarrow> addr \<Rightarrow> 'c option \<Rightarrow>
   ((('z, 'e, 'l, 'c) effect list \<times> 'e Promise) \<times> ('s, 'z) heap) option"
where
  "this_sendSpans_ref T axios_post this h spans done =
     (case get_spans h spans of
        None \<Rightarrow> None
      | Some ss \<Rightarrow>
          (let (zipkinSpans, h') =
                 heap_new h (ZipkinSpanArray (map (\<lambda>span. this_toZipkinSpan T this span) ss))
           in this_send_ref axios_post this h' zipkinSpans
                (\<lambda>result. case done of Some d \<Rightarrow> [Invoke d result] | None \<Rightarrow> [])))"

definition export_ref ::
  "('s, 'z) transform \<Rightarrow> (string \<Rightarrow> 'z list \<Rightarrow> 'e Promise) \<Rightarrow> 'l ZipkinExporter \<Rightarrow>
   ('s, 'z) heap \<Rightarrow> addr \<Rightarrow> 'c \<Rightarrow>
   ((('z, 'e, 'l, 'c) effect list \<times> 'e Promise) \<times> ('s, 'z) heap) option"
where
  "export_ref T axios_post this h spans resultCallback =
     this_sendSpans_ref T axios_post this h spans (Some resultCallback)"

section \<open>A small instance\<close>

text \<open>
  A stand-in for ./transform that keeps its four arguments, so that every argument
  shows in the wire span; the configuration of the example script (a url and the
  service name \<open>my-service\<close>); and a heap with two span objects and an array of both.
\<close>

definition demo_transform :: "(nat, nat \<times> string \<times> string \<times> string) transform" where
  "demo_transform =
     \<lparr> toZipkinSpan = (\<lambda>span name code description. (span, name, code, description)),
       statusCodeTagName = ''code'',
       statusDescriptionTagName = ''description'' \<rparr>"

definition demo_config :: "unit ExporterConfig" where
  "demo_config =
     \<lparr> logger = None, serviceName = ''my-service'',
       url = Some ''http://localhost:8888/http://host.docker.internal:9411/api/v2/spans'',
       forceFlush = None, statusCodeTagName = None, statusDescriptionTagName = None \<rparr>"

definition demo_exporter :: "unit ZipkinExporter" where
  "demo_exporter = new_ZipkinExporter demo_transform demo_config"

definition demo_heap :: "(nat, nat \<times> string \<times> string \<times> string) heap" where
  "demo_heap = [SpanObject 7, SpanObject 8, SpanArray [0, 1]]"

section \<open>Lemmas on effects and on the heap\<close>

lemma posts_append: "posts (xs @ ys) = posts xs @ posts ys"
  by (induction xs rule: posts.induct) simp_all

lemma send_nonempty_posts:
  "zs \<noteq> [] \<Longrightarrow> posts (fst (this_send axios_post this zs done)) = [(this_urlStr this, zs)]"
  by (cases "axios_post (this_urlStr this) zs") (simp_all add: this_send_def)

lemma send_nonempty_invocations:
  "zs \<noteq> [] \<Longrightarrow> invocations (fst (this_send axios_post this zs done)) = []"
  by (cases "axios_post (this_urlStr this) zs") (simp_all add: this_send_def)

lemma export_posts:
  "posts (fst (export T axios_post this spans cb)) =
     (if spans = [] then [] else [(this_urlStr this, map (this_toZipkinSpan T this) spans)])"
  by (simp add: export_def this_sendSpans_def send_nonempty_posts) (simp add: this_send_def)

lemma get_span_grow: "get_span h r = Some s \<Longrightarrow> get_span (h @ [v]) r = Some s"
  by (auto simp: get_span_def heap_get_def nth_append split: if_splits)

lemma those_get_span_grow:
  "those (map (get_span h) rs) = Some ss \<Longrightarrow> those (map (get_span (h @ [v])) rs) = Some ss"
proof (induction rs arbitrary: ss)
  case Nil
  then show ?case by simp
next
  case (Cons r rs)
  from Cons.prems obtain s ss' where s: "get_span h r = Some s"
    and ss': "those (map (get_span h) rs) = Some ss'" and eq: "ss = s # ss'"
    by (auto split: option.splits)
  from s have "get_span (h @ [v]) r = Some s" by (rule get_span_grow)
  moreover from ss' have "those (map (get_span (h @ [v])) rs) = Some ss'" by (rule Cons.IH)
  ultimately show ?case using eq by simp
qed

lemma get_spans_grow: "get_spans h a = Some ss \<Longrightarrow> get_spans (h @ [v]) a = Some ss"
  by (auto simp: get_spans_def heap_get_def nth_append those_get_span_grow
      split: if_splits option.splits obj.splits)

lemma get_zipkinSpans_new: "get_zipkinSpans (h @ [ZipkinSpanArray zs]) (length h) = Some zs"
  by (simp add: get_zipkinSpans_def heap_get_def)

lemma export_ref_eq:
  assumes "get_spans h spans = Some ss"
  shows "export_ref T axios_post this h spans onResult =
           Some (export T axios_post this ss onResult,
                 h @ [ZipkinSpanArray (map (this_toZipkinSpan T this) ss)])"
  using assms
  by (simp add: export_ref_def this_sendSpans_ref_def heap_new_def this_send_ref_def
      get_zipkinSpans_new export_def this_sendSpans_def)

section \<open>The result callback\<close>

text \<open>
  C1. The claim: every call \<open>export(spans, onResult)\<close> calls \<open>onResult\<close> exactly once.
  The code does so for an empty span array only. For every array with at least one span,
  whatever the network answers, \<open>_send\<close> takes its second branch, which never mentions
  \<open>done\<close>: the callback is not called at all.
\<close>

theorem export_nonempty_never_calls_back:
  "invocations (fst (export T axios_post this (s # ss) onResult)) = []"
  by (simp add: export_def this_sendSpans_def send_nonempty_invocations)

text \<open>
  C2. The claim: when the submission fails, the failure is caught and logged at error
  level, nothing is thrown, nothing is retried, and the callback gets FAILURE once.
  With a network that rejects every request, \<open>export\<close> of a non-empty array makes one
  request, logs one error and returns a fulfilled promise; the callback is not called,
  so it never receives FAILURE.
\<close>

theorem export_rejected_no_failure_reported:
  "export T (\<lambda>u d. Rejected reason) this (s # ss) onResult =
     ([AxiosPost (this_urlStr this) (map (this_toZipkinSpan T this) (s # ss)),
       LoggerError (this_logger this) (''axios.post threw error '' @ this_urlStr this) reason],
      Fulfilled)
   \<and> invocations (fst (export T (\<lambda>u d. Rejected reason) this (s # ss) onResult)) = []"
  by (simp add: export_def this_sendSpans_def this_send_def)

section \<open>An empty batch\<close>

text \<open>
  C3. \<open>export([], onResult)\<close>: the exporter's logger gets one debug message, the callback
  is called once, with SUCCESS, and nothing is handed to axios; the promise returned is
  fulfilled. This holds whatever the network would have answered.
\<close>

theorem export_empty:
  "export T axios_post this [] onResult =
     ([LoggerDebug (this_logger this) ''Zipkin send with empty spans'', Invoke onResult SUCCESS],
      Fulfilled)
   \<and> posts (fst (export T axios_post this [] onResult)) = []
   \<and> invocations (fst (export T axios_post this [] onResult)) = [(onResult, SUCCESS)]
   \<and> debugs (fst (export T axios_post this [] onResult)) =
       [(this_logger this, ''Zipkin send with empty spans'')]"
  by (simp add: export_def this_sendSpans_def this_send_def)

section \<open>The constructor\<close>

text \<open>
  C4. The claim: the force-flush flag is the configured \<open>forceFlush\<close> when one is given,
  so \<open>false\<close> for \<open>forceFlush: false\<close>, and \<open>true\<close> when the option is absent. The
  constructor computes \<open>config.forceFlush || true\<close>, which is \<open>true\<close> for every
  configuration: a configured \<open>false\<close> is lost.
\<close>

theorem forceFlush_false_is_lost:
  "this_forceFlush (new_ZipkinExporter T (config\<lparr>forceFlush := Some False\<rparr>)) = True"
  by (simp add: new_ZipkinExporter_def or_boolean_def)

text \<open>
  C10. An empty string given for \<open>url\<close>, \<open>statusCodeTagName\<close> or
  \<open>statusDescriptionTagName\<close> gives the very exporter that leaving the option out gives,
  and the field holds the default: \<open>DEFAULT_URL\<close>, or the tag key of ./transform.
\<close>

theorem empty_string_option_is_defaulted:
  "new_ZipkinExporter T (config\<lparr>url := Some []\<rparr>) = new_ZipkinExporter T (config\<lparr>url := None\<rparr>)
   \<and> this_urlStr (new_ZipkinExporter T (config\<lparr>url := Some []\<rparr>)) = DEFAULT_URL
   \<and> new_ZipkinExporter T (config\<lparr>ExporterConfig.statusCodeTagName := Some []\<rparr>) =
       new_ZipkinExporter T (config\<lparr>ExporterConfig.statusCodeTagName := None\<rparr>)
   \<and> this_statusCodeTagName
         (new_ZipkinExporter T (config\<lparr>ExporterConfig.statusCodeTagName := Some []\<rparr>)) =
       transform.statusCodeTagName T
   \<and> new_ZipkinExporter T (config\<lparr>ExporterConfig.statusDescriptionTagName := Some []\<rparr>) =
       new_ZipkinExporter T (config\<lparr>ExporterConfig.statusDescriptionTagName := None\<rparr>)
   \<and> this_statusDescriptionTagName
         (new_ZipkinExporter T (config\<lparr>ExporterConfig.statusDescriptionTagName := Some []\<rparr>)) =
       transform.statusDescriptionTagName T"
  by (simp add: new_ZipkinExporter_def or_string_def)

section \<open>Shutdown\<close>

text \<open>
  C5. The claim: \<open>shutdown()\<close> makes one final export call with an empty batch when
  force-flush is enabled, and no export call at all when force-flush is disabled.
  \<open>shutdown\<close> tests \<open>this._forceFlush\<close>, which the constructor sets to \<open>true\<close> for every
  configuration. An exporter constructed with \<open>forceFlush: false\<close> therefore still makes
  the call \<open>_sendSpans([])\<close> on shutdown: its logger gets the debug message of the empty
  flush.
\<close>

theorem shutdown_flushes_when_disabled:
  "shutdown T axios_post (new_ZipkinExporter T (config\<lparr>forceFlush := Some False\<rparr>)) =
     fst (this_sendSpans T axios_post
            (new_ZipkinExporter T (config\<lparr>forceFlush := Some False\<rparr>)) [] None)
   \<and> shutdown T axios_post (new_ZipkinExporter T (config\<lparr>forceFlush := Some False\<rparr>)) =
       [LoggerDebug (or_object (logger config) NoopLogger) ''Zipkin send with empty spans'']"
  by (simp add: shutdown_def this_sendSpans_def this_send_def new_ZipkinExporter_def
      or_boolean_def)

section \<open>One request for each non-empty batch\<close>

text \<open>
  C6. \<open>export\<close> of a non-empty span array hands axios exactly one request, to the
  exporter's url, holding the transform of that array. Over any sequence of \<open>export\<close>
  calls on one exporter the requests are, in order, one for each call with a non-empty
  array, each holding the transform of the spans of its own call and of no other.
\<close>

theorem export_one_request_per_call:
  "posts (fst (export T axios_post this (s # ss) onResult)) =
     [(this_urlStr this, map (this_toZipkinSpan T this) (s # ss))]
   \<and> posts (exports T axios_post this calls) =
       map (\<lambda>(spans, cb). (this_urlStr this, map (this_toZipkinSpan T this) spans))
         (filter (\<lambda>(spans, cb). spans \<noteq> []) calls)"
proof
  show "posts (fst (export T axios_post this (s # ss) onResult)) =
          [(this_urlStr this, map (this_toZipkinSpan T this) (s # ss))]"
    by (simp add: export_posts)
next
  show "posts (exports T axios_post this calls) =
          map (\<lambda>(spans, cb). (this_urlStr this, map (this_toZipkinSpan T this) spans))
            (filter (\<lambda>(spans, cb). spans \<noteq> []) calls)"
    by (induction calls) (auto simp: posts_append export_posts)
qed

text \<open>
  C7. For a non-empty span array the one batch handed to axios has as many entries as
  the array has spans, and entry \<open>i\<close> is \<open>toZipkinSpan\<close> of span \<open>i\<close> at the exporter's
  service name, status code tag key and status description tag key.
\<close>

theorem export_batch_elementwise:
  assumes "spans \<noteq> []"
  shows "case posts (fst (export T axios_post this spans onResult)) of
           [(u, batch)] \<Rightarrow>
             length batch = length spans
             \<and> (\<forall>i<length spans.
                   batch ! i =
                     toZipkinSpan T (spans ! i) (this_serviceName this)
                       (this_statusCodeTagName this) (this_statusDescriptionTagName this))
         | _ \<Rightarrow> False"
  using assms by (simp add: export_posts this_toZipkinSpan_def)

text \<open>
  At an exporter whose service name and two tag keys are all configured, for the spans
  \<open>7\<close> and \<open>8\<close>: each entry of the batch carries its span and the three configured strings.
\<close>

theorem export_batch_elementwise_witness:
  "[7, 8] \<noteq> ([] :: nat list)
   \<and> posts (fst (export demo_transform (\<lambda>u d. Fulfilled :: unit Promise)
                    (new_ZipkinExporter demo_transform
                       (demo_config\<lparr>serviceName := ''shop'',
                          ExporterConfig.statusCodeTagName := Some ''my.code'',
                          ExporterConfig.statusDescriptionTagName := Some ''my.why''\<rparr>))
                    [7, 8] (0 :: nat))) =
       [(''http://localhost:8888/http://host.docker.internal:9411/api/v2/spans'',
         [(7, ''shop'', ''my.code'', ''my.why''), (8, ''shop'', ''my.code'', ''my.why'')])]"
proof -
  have ne: "[7, 8] \<noteq> ([] :: nat list)" by simp
  show ?thesis
    using ne export_batch_elementwise [OF ne, where T = demo_transform
        and axios_post = "\<lambda>u d. Fulfilled :: unit Promise"
        and this = "new_ZipkinExporter demo_transform
                      (demo_config\<lparr>serviceName := ''shop'',
                         ExporterConfig.statusCodeTagName := Some ''my.code'',
                         ExporterConfig.statusDescriptionTagName := Some ''my.why''\<rparr>)"
        and onResult = "0 :: nat"]
    by (simp add: export_posts this_toZipkinSpan_def new_ZipkinExporter_def
        demo_transform_def demo_config_def or_string_def)
qed

section \<open>The caller's spans are left as they were\<close>

text \<open>
  C9. \<open>export\<close> on a heap where \<open>spans\<close> is an array of span objects returns, with the
  effects and the promise of \<open>export\<close> on those spans, the heap it was given with one
  new object at the end: the batch. So every object that was on the heap before the
  call, the span array and each span object among them, is as it was; the batch is at
  a new reference; and the batch on the heap after the call is the transform of the
  spans, as it was built.
\<close>

theorem export_ref_frame:
  assumes "get_spans h spans = Some ss"
  shows "case export_ref T axios_post this h spans onResult of
           None \<Rightarrow> False
         | Some (r, h') \<Rightarrow>
             r = export T axios_post this ss onResult
             \<and> take (length h) h' = h
             \<and> get_spans h' spans = Some ss
             \<and> h' = h @ [ZipkinSpanArray (map (this_toZipkinSpan T this) ss)]
             \<and> get_zipkinSpans h' (length h) = Some (map (this_toZipkinSpan T this) ss)"
  using assms
  by (simp add: export_ref_eq get_spans_grow get_zipkinSpans_new)

theorem export_ref_frame_witness:
  "get_spans demo_heap 2 = Some [7, 8]
   \<and> export_ref demo_transform (\<lambda>u d. Rejected ()) demo_exporter demo_heap 2 (0 :: nat) =
       Some (export demo_transform (\<lambda>u d. Rejected ()) demo_exporter [7, 8] 0,
         [SpanObject 7, SpanObject 8, SpanArray [0, 1],
          ZipkinSpanArray [(7, ''my-service'', ''code'', ''description''),
                           (8, ''my-service'', ''code'', ''description'')]])"
proof -
  have h: "get_spans demo_heap 2 = Some [7, 8]"
    by (simp add: get_spans_def get_span_def heap_get_def demo_heap_def)
  show ?thesis
    using h export_ref_frame [OF h, where T = demo_transform
        and axios_post = "\<lambda>u d. Rejected ()" and this = demo_exporter
        and onResult = "0 :: nat"]
    by (auto simp: demo_heap_def this_toZipkinSpan_def demo_exporter_def
        new_ZipkinExporter_def demo_transform_def demo_config_def or_string_def
        split: option.splits)
qed

end
